theory Spec2Isabelle
  imports Main "HOL-Library.Sublist"
begin

section \<open>Python exceptions\<close>

text \<open>
  An exception value carries the method resolution order of its class (the class itself
  first, then its bases, by name), the text \<open>str(e)\<close> gives, and the exception it was
  raised \<open>from\<close>. An \<open>except C\<close> clause catches \<open>e\<close> when \<open>C\<close> is in the
  resolution order of \<open>e\<close>.
\<close>

datatype exc = Exc (mro: "string list") (message: string) (cause: "exc option")

definition isinstance :: "exc \<Rightarrow> string \<Rightarrow> bool" where
  "isinstance e c = (c \<in> set (mro e))"

definition FileNotFoundError :: "string \<Rightarrow> exc option \<Rightarrow> exc" where
  "FileNotFoundError m c =
     Exc [''FileNotFoundError'', ''OSError'', ''Exception'', ''BaseException'', ''object''] m c"



definition ConnectionError :: "string \<Rightarrow> exc option \<Rightarrow> exc" where
  "ConnectionError m c =
     Exc [''ConnectionError'', ''OSError'', ''Exception'', ''BaseException'', ''object''] m c"

definition ValueError :: "string \<Rightarrow> exc option \<Rightarrow> exc" where
  "ValueError m c = Exc [''ValueError'', ''Exception'', ''BaseException'', ''object''] m c"

definition RuntimeError :: "string \<Rightarrow> exc option \<Rightarrow> exc" where
  "RuntimeError m c = Exc [''RuntimeError'', ''Exception'', ''BaseException'', ''object''] m c"

definition KeyboardInterrupt :: exc where
  "KeyboardInterrupt = Exc [''KeyboardInterrupt'', ''BaseException'', ''object''] [] None"

section \<open>The filesystem and \<open>os.path\<close> (POSIX flavour)\<close>

text \<open>
  The filesystem maps the component list of an absolute path to the kind of the entry
  there; the root is the empty list. There are no symbolic links and no permissions.
  The process has a current directory.
\<close>

datatype kind = File | Dir

datatype errno = ENOENT | ENOTDIR | EEXIST

record os_state =
  entries :: "string list \<rightharpoonup> kind"
  cwd :: "string list"

text \<open>\<open>str.split('/')\<close> and \<open>'/'.join\<close>.\<close>

fun split_sep :: "string \<Rightarrow> string list" where
  "split_sep [] = [[]]"
| "split_sep (c # cs) =
     (if c = CHR ''/'' then [] # split_sep cs
      else (c # hd (split_sep cs)) # tl (split_sep cs))"



text \<open>
  Path resolution as the kernel does it: component by component from a starting
  directory; every component but the last must be taken in a directory, an empty
  component or \<open>.\<close> stays, \<open>..\<close> goes to the parent (the root is its own parent).
\<close>

fun walk :: "(string list \<rightharpoonup> kind) \<Rightarrow> string list \<Rightarrow> string list \<Rightarrow> errno + string list" where
  "walk es cur [] = (case es cur of None \<Rightarrow> Inl ENOENT | Some k \<Rightarrow> Inr cur)"
| "walk es cur (c # cs) =
     (case es cur of
        None \<Rightarrow> Inl ENOENT
      | Some File \<Rightarrow> Inl ENOTDIR
      | Some Dir \<Rightarrow>
          (if c = [] \<or> c = ''.'' then walk es cur cs
           else if c = ''..'' then walk es (butlast cur) cs
           else walk es (cur @ [c]) cs))"

definition start_dir :: "os_state \<Rightarrow> string \<Rightarrow> string list" where
  "start_dir s p = (if hd p = CHR ''/'' then [] else cwd s)"

definition stat :: "os_state \<Rightarrow> string \<Rightarrow> errno + kind" where
  "stat s p =
     (if p = [] then Inl ENOENT
      else case walk (entries s) (start_dir s p) (split_sep p) of
             Inl e \<Rightarrow> Inl e
           | Inr n \<Rightarrow> (case entries s n of None \<Rightarrow> Inl ENOENT | Some k \<Rightarrow> Inr k))"

text \<open>\<open>os.path.exists\<close> and \<open>os.path.isdir\<close>: a failing \<open>stat\<close> is False.\<close>

definition exists :: "os_state \<Rightarrow> string \<Rightarrow> bool" where
  "exists s p = (case stat s p of Inl e \<Rightarrow> False | Inr k \<Rightarrow> True)"


text \<open>\<open>posixpath.isabs\<close> and \<open>posixpath.join\<close> for two arguments.\<close>

definition isabs :: "string \<Rightarrow> bool" where
  "isabs p = (p \<noteq> [] \<and> hd p = CHR ''/'')"

definition join :: "string \<Rightarrow> string \<Rightarrow> string" where
  "join a b =
     (if isabs b then b
      else if a = [] \<or> last a = CHR ''/'' then a @ b
      else a @ ''/'' @ b)"

section \<open>The external dataset library\<close>

text \<open>
  The loader calls the library's \<open>load_dataset\<close> in one of two ways. The library is a
  parameter of the model: a function from the filesystem and the request to a dataset
  or a raised exception, and the filesystem it leaves behind.
\<close>

datatype load_request =
    LocalPath (req_path: string) (req_split: string)
  | Remote (req_name: string) (req_split: string) (req_cache_dir: string)

type_synonym 'd library = "os_state \<Rightarrow> load_request \<Rightarrow> (exc + 'd) \<times> os_state"

section \<open>DatasetLoader\<close>

record loader =
  local_cache_dir :: string

datatype event = Print string | Call load_request

record 'd outcome =
  result :: "exc + 'd"
  self_after :: loader
  os_after :: os_state
  trace :: "event list"

definition sq :: "string \<Rightarrow> string" where
  "sq x = [CHR 0x27] @ x @ [CHR 0x27]"

text \<open>
  The four \<open>except\<close> clauses of \<open>load_dataset\<close>, in the order of the source: what is
  printed and what is raised for a caught exception. An exception that no clause
  matches (one that is not an \<open>Exception\<close>) propagates as it is.
\<close>

definition handle_error :: "string \<Rightarrow> string \<Rightarrow> exc \<Rightarrow> event list \<times> exc" where
  "handle_error dataset_name split e =
     (if isinstance e ''FileNotFoundError'' then
        ([Print (''Error: Dataset '' @ sq dataset_name @ '' not found locally or remotely.'')],
         FileNotFoundError
           (''Dataset '' @ sq dataset_name @ '' not available locally or on Hugging Face Hub.'')
           (Some e))
      else if isinstance e ''ConnectionError'' then
        ([Print (''Error: Unable to connect to Hugging Face Hub to download ''
                 @ sq dataset_name @ ''.'')],
         ConnectionError
           (''Failed to download dataset '' @ sq dataset_name @ '' due to connectivity issues.'')
           (Some e))
      else if isinstance e ''ValueError'' then
        ([Print (''Error: Invalid dataset name or split for '' @ sq dataset_name @ ''.'')],
         ValueError
           (''Dataset '' @ sq dataset_name @ '' or split '' @ sq split @ '' is invalid.'')
           (Some e))
      else if isinstance e ''Exception'' then
        ([Print (''Unexpected error while loading dataset '' @ sq dataset_name @ '': ''
                 @ message e)],
         RuntimeError
           (''An unexpected error occurred while loading dataset '' @ sq dataset_name @ ''.'')
           (Some e))
      else ([], e))"

text \<open>
  The \<open>try\<close> body up to the library call: the first print, the candidate path, and
  the branch on its existence, which fixes the second print and the request.
\<close>

definition attempt :: "loader \<Rightarrow> os_state \<Rightarrow> string \<Rightarrow> string \<Rightarrow> event list \<times> load_request" where
  "attempt self s dataset_name split =
     (let p1 = Print (''Attempting to load dataset: '' @ dataset_name @ '', split: '' @ split);
          dataset_path = join (local_cache_dir self) dataset_name
      in if exists s dataset_path
         then ([p1, Print (''Loading dataset locally from: '' @ dataset_path)],
               LocalPath dataset_path split)
         else ([p1, Print (''Dataset not found locally. Attempting to download ''
                           @ dataset_name @ '' from Hugging Face Hub...'')],
               Remote dataset_name split (local_cache_dir self)))"

text \<open>
  \<open>load_dataset\<close>: the library is called once with the request; its dataset is
  returned as it is, its exception goes through the \<open>except\<close> clauses. The method
  assigns nothing to \<open>self\<close> and touches the filesystem only through the library.
\<close>

definition load_dataset ::
  "'d library \<Rightarrow> loader \<Rightarrow> os_state \<Rightarrow> string \<Rightarrow> string \<Rightarrow> 'd outcome" where
  "load_dataset lib self s dataset_name split =
     (case attempt self s dataset_name split of
        (printed, req) \<Rightarrow>
          (case lib s req of
             (Inr d, s') \<Rightarrow>
               \<lparr>result = Inr d, self_after = self, os_after = s',
                trace = printed @ [Call req]\<rparr>
           | (Inl e, s') \<Rightarrow>
               (case handle_error dataset_name split e of
                  (printed', e') \<Rightarrow>
                    \<lparr>result = Inl e', self_after = self, os_after = s',
                     trace = printed @ [Call req] @ printed'\<rparr>)))"


section \<open>Example inputs\<close>

text \<open>
  A filesystem with the cache directory \<open>/data\<close>, a dataset directory \<open>/data/squad\<close>
  and a regular file \<open>/data/notes.txt\<close>; a loader on \<open>/data\<close>; a library that
  returns the number 7 as its dataset, and one that fails with a given exception.
\<close>

definition example_os :: os_state where
  "example_os =
     \<lparr>entries = [[] \<mapsto> Dir, [''data''] \<mapsto> Dir, [''data'', ''squad''] \<mapsto> Dir,
                 [''data'', ''notes.txt''] \<mapsto> File],
      cwd = []\<rparr>"

definition example_loader :: loader where
  "example_loader = \<lparr>local_cache_dir = ''/data''\<rparr>"

definition good_library :: "nat library" where
  "good_library s req = (Inr 7, s)"

definition failing_library :: "exc \<Rightarrow> nat library" where
  "failing_library e s req = (Inl e, s)"

section \<open>The branch taken\<close>







lemma example_exists_squad: "exists example_os ''/data/squad''"
  by (simp add: exists_def stat_def start_dir_def example_os_def)







text \<open>
  C6. The result of \<open>load_dataset\<close> is the library's dataset, unchanged, when the
  library call returns one, and a raised exception when the library call raises:
  every invocation ends in one of the two.
\<close>

theorem result_is_library_value_or_failure:
  "result (load_dataset lib self s dataset_name split) =
     (case fst (lib s (snd (attempt self s dataset_name split))) of
        Inr d \<Rightarrow> Inr d
      | Inl e \<Rightarrow> Inl (snd (handle_error dataset_name split e)))"
  by (simp add: load_dataset_def split: prod.splits sum.splits)

theorem result_is_library_value_or_failure_witness:
  "result (load_dataset good_library example_loader example_os ''squad'' ''test'') = Inr 7"
  using result_is_library_value_or_failure
          [of good_library example_loader example_os "''squad''" "''test''"]
  by (simp add: good_library_def)



section \<open>Exception translation\<close>

text \<open>An exception is caught by \<open>load_dataset\<close> when one of its four clauses matches.\<close>

definition caught :: "exc \<Rightarrow> bool" where
  "caught e =
     (isinstance e ''FileNotFoundError'' \<or> isinstance e ''ConnectionError'' \<or>
      isinstance e ''ValueError'' \<or> isinstance e ''Exception'')"

text \<open>A sequence of loads on one loader, each from the state the one before left.\<close>

fun load_all :: "'d library \<Rightarrow> loader \<Rightarrow> os_state \<Rightarrow> (string \<times> string) list \<Rightarrow> loader \<times> os_state" where
  "load_all lib self s [] = (self, s)"
| "load_all lib self s ((dataset_name, split) # rest) =
     load_all lib (self_after (load_dataset lib self s dataset_name split))
       (os_after (load_dataset lib self s dataset_name split)) rest"

lemma sublist_sq: "sublist x (a @ sq x @ b)"
proof -
  have "a @ sq x @ b = (a @ [CHR 0x27]) @ x @ ([CHR 0x27] @ b)"
    by (simp add: sq_def)
  then show ?thesis
    unfolding sublist_def by blast
qed

lemma result_on_failure:
  "lib s (snd (attempt self s dataset_name split)) = (Inl e, s') \<Longrightarrow>
   result (load_dataset lib self s dataset_name split) =
     Inl (snd (handle_error dataset_name split e))"
  by (auto simp: load_dataset_def split: prod.splits sum.splits)

lemma result_on_success:
  "lib s (snd (attempt self s dataset_name split)) = (Inr d, s') \<Longrightarrow>
   result (load_dataset lib self s dataset_name split) = Inr d"
  by (auto simp: load_dataset_def split: prod.splits sum.splits)

lemma result_Inl_cases:
  assumes "result (load_dataset lib self s dataset_name split) = Inl e'"
  obtains e where "fst (lib s (snd (attempt self s dataset_name split))) = Inl e"
    and "e' = snd (handle_error dataset_name split e)"
  using assms by (auto simp: load_dataset_def split: prod.splits sum.splits)

lemma example_join_squad: "join (local_cache_dir example_loader) ''squad'' = ''/data/squad''"
  by (simp add: join_def isabs_def example_loader_def)

lemma example_attempt_squad:
  "snd (attempt example_loader example_os ''squad'' ''test'') = LocalPath ''/data/squad'' ''test''"
  using example_exists_squad example_join_squad
  by (simp add: attempt_def Let_def)

lemma KeyboardInterrupt_not_caught: "\<not> caught KeyboardInterrupt"
  by (simp add: caught_def isinstance_def KeyboardInterrupt_def)

lemma handle_error_KeyboardInterrupt:
  "handle_error dataset_name split KeyboardInterrupt = ([], KeyboardInterrupt)"
  by (simp add: handle_error_def isinstance_def KeyboardInterrupt_def)




text \<open>
  C4, as stated, fails: the \<open>KeyboardInterrupt\<close> that propagates unchanged carries
  its own message, here the empty one, which does not contain the dataset name.
\<close>

theorem propagated_message_lacks_dataset_name:
  "result (load_dataset (failing_library KeyboardInterrupt) example_loader example_os
             ''squad'' ''test'') = Inl KeyboardInterrupt \<and>
   \<not> sublist ''squad'' (message KeyboardInterrupt)"
proof -
  have "result (load_dataset (failing_library KeyboardInterrupt) example_loader example_os
             ''squad'' ''test'') = Inl (snd (handle_error ''squad'' ''test'' KeyboardInterrupt))"
    by (rule result_on_failure [where s' = example_os]) (simp add: failing_library_def)
  then show ?thesis
    by (simp add: handle_error_KeyboardInterrupt) (simp add: KeyboardInterrupt_def)
qed

lemma handle_error_message:
  assumes "isinstance (snd (handle_error dataset_name split e)) ''Exception''"
  shows "sublist dataset_name (message (snd (handle_error dataset_name split e)))"
proof -
  have d: "sublist dataset_name (''Dataset '' @ sq dataset_name @ b)" for b
    by (rule sublist_sq)
  have f: "sublist dataset_name (''Failed to download dataset '' @ sq dataset_name @ b)" for b
    by (rule sublist_sq)
  have u: "sublist dataset_name
             (''An unexpected error occurred while loading dataset '' @ sq dataset_name @ b)" for b
    by (rule sublist_sq)
  show ?thesis
    using assms d f u
    by (simp add: handle_error_def FileNotFoundError_def ConnectionError_def
          ValueError_def RuntimeError_def split: if_splits)
qed

lemma handle_error_message_split:
  assumes "isinstance (snd (handle_error dataset_name split e)) ''Exception''"
    and "hd (mro (snd (handle_error dataset_name split e))) = ''ValueError''"
  shows "sublist split (message (snd (handle_error dataset_name split e)))"
proof -
  have "sublist split ((''Dataset '' @ sq dataset_name @ '' or split '') @ sq split
          @ '' is invalid.'')"
    by (rule sublist_sq)
  then have v: "sublist split (''Dataset '' @ sq dataset_name @ '' or split '' @ sq split
          @ '' is invalid.'')"
    by simp
  show ?thesis
    using assms v
    by (simp add: handle_error_def FileNotFoundError_def ConnectionError_def
          ValueError_def RuntimeError_def isinstance_def split: if_splits)
qed

text \<open>
  C4, amended. Whenever \<open>load_dataset\<close> raises an \<open>Exception\<close> (one of the four
  re-raised kinds, not a \<open>BaseException\<close> that passed through), the message contains
  the dataset name, and when the raised class is \<open>ValueError\<close> it contains the split
  as well.
\<close>

theorem raised_message_names_dataset:
  assumes "result (load_dataset lib self s dataset_name split) = Inl e'"
    and "isinstance e' ''Exception''"
  shows "sublist dataset_name (message e') \<and>
         (hd (mro e') = ''ValueError'' \<longrightarrow> sublist split (message e'))"
proof -
  from assms(1) obtain e where e': "e' = snd (handle_error dataset_name split e)"
    by (rule result_Inl_cases)
  from assms(2) e' show ?thesis
    by (simp add: handle_error_message handle_error_message_split)
qed

theorem raised_message_names_dataset_witness:
  "result (load_dataset (failing_library (ValueError ''Unknown split'' None))
             example_loader example_os ''squad'' ''tset'') =
     Inl (ValueError ''Dataset 'squad' or split 'tset' is invalid.''
            (Some (ValueError ''Unknown split'' None))) \<and>
   isinstance (ValueError ''Dataset 'squad' or split 'tset' is invalid.''
            (Some (ValueError ''Unknown split'' None))) ''Exception'' \<and>
   hd (mro (ValueError ''Dataset 'squad' or split 'tset' is invalid.''
            (Some (ValueError ''Unknown split'' None)))) = ''ValueError'' \<and>
   sublist ''squad'' ''Dataset 'squad' or split 'tset' is invalid.'' \<and>
   sublist ''tset'' ''Dataset 'squad' or split 'tset' is invalid.''"
proof -
  let ?e = "ValueError ''Unknown split'' None"
  let ?e' = "ValueError ''Dataset 'squad' or split 'tset' is invalid.'' (Some ?e)"
  have "result (load_dataset (failing_library ?e) example_loader example_os ''squad'' ''tset'')
          = Inl (snd (handle_error ''squad'' ''tset'' ?e))"
    by (rule result_on_failure [where s' = example_os]) (simp add: failing_library_def)
  moreover have "snd (handle_error ''squad'' ''tset'' ?e) = ?e'"
    by (simp add: handle_error_def isinstance_def ValueError_def sq_def)
  ultimately have r: "result (load_dataset (failing_library ?e) example_loader example_os
                        ''squad'' ''tset'') = Inl ?e'"
    by simp
  have i: "isinstance ?e' ''Exception''"
    by (simp add: isinstance_def ValueError_def)
  have h: "hd (mro ?e') = ''ValueError''"
    by (simp add: ValueError_def)
  have m: "message ?e' = ''Dataset 'squad' or split 'tset' is invalid.''"
    by (simp add: ValueError_def)
  from raised_message_names_dataset [OF r i] r i h m show ?thesis
    by simp
qed

section \<open>Diagnostics\<close>

lemma handle_error_prints:
  "fst (handle_error dataset_name split e) = [] \<longleftrightarrow> \<not> caught e"
  by (simp add: handle_error_def caught_def)

lemma handle_error_prints_one:
  "caught e \<Longrightarrow> \<exists>m. fst (handle_error dataset_name split e) = [Print m]"
  by (auto simp: handle_error_def caught_def)

lemma attempt_prints:
  "\<exists>m1 m2. fst (attempt self s dataset_name split) = [Print m1, Print m2]"
  by (simp add: attempt_def Let_def)

lemma trace_load_dataset:
  "trace (load_dataset lib self s dataset_name split) =
     fst (attempt self s dataset_name split) @
     [Call (snd (attempt self s dataset_name split))] @
     (case fst (lib s (snd (attempt self s dataset_name split))) of
        Inr d \<Rightarrow> []
      | Inl e \<Rightarrow> fst (handle_error dataset_name split e))"
  by (auto simp: load_dataset_def split: prod.splits sum.splits)

text \<open>
  C8, as stated, fails: after a successful library call the method returns at once, so
  nothing is printed after the attempt: the call is the last event of the trace.
\<close>

theorem nothing_printed_after_success:
  "trace (load_dataset good_library example_loader example_os ''squad'' ''test'') =
     [Print ''Attempting to load dataset: squad, split: test'',
      Print ''Loading dataset locally from: /data/squad'',
      Call (LocalPath ''/data/squad'' ''test'')]"
proof -
  have a: "attempt example_loader example_os ''squad'' ''test'' =
     ([Print ''Attempting to load dataset: squad, split: test'',
       Print ''Loading dataset locally from: /data/squad''],
      LocalPath ''/data/squad'' ''test'')"
    using example_exists_squad example_join_squad
    by (simp add: attempt_def Let_def)
  show ?thesis
    by (simp add: trace_load_dataset a good_library_def)
qed

text \<open>
  C8, amended. Every invocation prints two diagnostic messages, then makes its one call
  to the library. After the call, one more message is printed exactly when the call
  failed with an exception one of the four clauses catches, before that failure is
  re-raised; nothing is printed after a call that returns a dataset, or after an
  exception that passes through.
\<close>

theorem diagnostics_around_the_attempt:
  "\<exists>m1 m2 after.
     trace (load_dataset lib self s dataset_name split) =
       [Print m1, Print m2, Call (snd (attempt self s dataset_name split))] @ after \<and>
     (case fst (lib s (snd (attempt self s dataset_name split))) of
        Inr d \<Rightarrow> after = []
      | Inl e \<Rightarrow> if caught e then (\<exists>m. after = [Print m]) else after = [])"
proof -
  obtain m1 m2 where a: "fst (attempt self s dataset_name split) = [Print m1, Print m2]"
    using attempt_prints by blast
  let ?after = "case fst (lib s (snd (attempt self s dataset_name split))) of
                  Inr d \<Rightarrow> [] | Inl e \<Rightarrow> fst (handle_error dataset_name split e)"
  have t: "trace (load_dataset lib self s dataset_name split) =
             [Print m1, Print m2, Call (snd (attempt self s dataset_name split))] @ ?after"
    by (simp add: trace_load_dataset a)
  have c: "case fst (lib s (snd (attempt self s dataset_name split))) of
             Inr d \<Rightarrow> ?after = []
           | Inl e \<Rightarrow> if caught e then (\<exists>m. ?after = [Print m]) else ?after = []"
    by (auto simp: handle_error_prints handle_error_prints_one split: sum.splits)
  from t c show ?thesis by blast
qed

theorem diagnostics_around_the_attempt_witness:
  "\<exists>m1 m2 after.
     trace (load_dataset (failing_library (ConnectionError ''hub unreachable'' None))
              example_loader example_os ''squad'' ''test'') =
       [Print m1, Print m2, Call (LocalPath ''/data/squad'' ''test'')] @ after \<and>
     (\<exists>m. after = [Print m])"
proof -
  let ?e = "ConnectionError ''hub unreachable'' None"
  have c: "caught ?e"
    by (simp add: caught_def isinstance_def ConnectionError_def)
  from diagnostics_around_the_attempt
         [of "failing_library ?e" example_loader example_os "''squad''" "''test''"]
  show ?thesis
    by (simp add: example_attempt_squad failing_library_def c)
qed

section \<open>What a load leaves unchanged\<close>

lemma self_after_load_dataset [simp]:
  "self_after (load_dataset lib self s dataset_name split) = self"
  by (auto simp: load_dataset_def split: prod.splits sum.splits)

lemma os_after_load_dataset:
  "os_after (load_dataset lib self s dataset_name split) =
     snd (lib s (snd (attempt self s dataset_name split)))"
  by (auto simp: load_dataset_def split: prod.splits sum.splits)

lemma load_all_self: "fst (load_all lib self s reqs) = self"
  by (induction lib self s reqs rule: load_all.induct) simp_all

lemma load_all_os:
  "(\<forall>s r. snd (lib s r) = s) \<Longrightarrow> snd (load_all lib self s reqs) = s"
  by (induction lib self s reqs rule: load_all.induct) (simp_all add: os_after_load_dataset)

text \<open>
  C7. A load assigns nothing to the loader and does nothing to the filesystem itself:
  the filesystem after the load is the one the library call left. So the cache
  directory path is the same after every sequence of loads, and with a library that
  leaves the filesystem alone (as one that only reads, or fails), so is the filesystem:
  no directory is created at load time by the loader.
\<close>

theorem load_creates_nothing_and_keeps_cache_dir:
  "os_after (load_dataset lib self s dataset_name split) =
     snd (lib s (snd (attempt self s dataset_name split))) \<and>
   local_cache_dir (self_after (load_dataset lib self s dataset_name split)) =
     local_cache_dir self \<and>
   local_cache_dir (fst (load_all lib self s reqs)) = local_cache_dir self \<and>
   ((\<forall>s r. snd (lib s r) = s) \<longrightarrow> snd (load_all lib self s reqs) = s)"
  by (simp add: os_after_load_dataset load_all_self load_all_os)

theorem load_creates_nothing_and_keeps_cache_dir_witness:
  "os_after (load_dataset good_library example_loader example_os ''xsum'' ''test'') = example_os \<and>
   local_cache_dir (fst (load_all good_library example_loader example_os
                           [(''xsum'', ''test''), (''squad'', ''train'')])) = ''/data'' \<and>
   snd (load_all good_library example_loader example_os
          [(''xsum'', ''test''), (''squad'', ''train'')]) = example_os"
proof -
  have g: "\<forall>s r. snd (good_library s r) = s"
    by (simp add: good_library_def)
  from load_creates_nothing_and_keeps_cache_dir
         [of good_library example_loader example_os "''xsum''" "''test''"
             "[(''xsum'', ''test''), (''squad'', ''train'')]"] g
  show ?thesis
    by (simp add: os_after_load_dataset good_library_def example_loader_def)
qed

section \<open>Construction: \<open>os.path.abspath\<close> and \<open>os.makedirs\<close>\<close>
















section \<open>Paths and their components\<close>

definition clean :: "string list \<Rightarrow> bool" where
  "clean cs = list_all (\<lambda>c. c \<noteq> [] \<and> CHR ''/'' \<notin> set c \<and> c \<noteq> ''.'' \<and> c \<noteq> ''..'') cs"

lemma clean_Nil [simp]: "clean []"
  by (simp add: clean_def)




lemma split_sep_not_Nil [simp]: "split_sep p \<noteq> []"
  by (induction p) simp_all








section \<open>Path resolution\<close>






section \<open>The shape of an absolute normal path\<close>








section \<open>Splitting an absolute normal path\<close>









section \<open>Making one directory\<close>






















section \<open>\<open>makedirs\<close> on an absolute normal path\<close>


















section \<open>Construction\<close>



















section \<open>The empty dataset name\<close>










end
